theory Spec2Isabelle
  imports Complex_Main "HOL-Library.AList"
begin

section \<open>JSON-like data trees\<close>

text \<open>
  Scan results and profiles are Python values built from \<^verbatim>\<open>dict\<close>, \<^verbatim>\<open>list\<close>,
  \<^verbatim>\<open>str\<close>, numbers, booleans and \<^verbatim>\<open>None\<close>; they go through \<^verbatim>\<open>json.dump\<close> and
  \<^verbatim>\<open>json.load\<close>, so dictionary keys are strings. A dictionary is an association list in
  insertion order. Python dictionaries never hold a key twice: \<open>wf_json\<close> says so.
  \<open>map_of\<close> is \<^verbatim>\<open>d.get(k)\<close>, \<open>AList.update k v\<close> is \<^verbatim>\<open>d[k] = v\<close> (the value of
  a present key is replaced in place, a new key goes to the end).
\<close>

datatype json =
    JNull
  | JBool bool
  | JInt int
  | JFloat real
  | JStr string
  | JList "json list"
  | JDict "(string \<times> json) list"

type_synonym dict = "(string \<times> json) list"

fun wf_json :: "json \<Rightarrow> bool" where
  "wf_json (JDict m) = (distinct (map fst m) \<and> (\<forall>p \<in> set m. wf_json (snd p)))"
| "wf_json (JList xs) = (\<forall>x \<in> set xs. wf_json x)"
| "wf_json v = True"

fun is_scalar :: "json \<Rightarrow> bool" where
  "is_scalar (JDict m) = False"
| "is_scalar (JList xs) = False"
| "is_scalar v = True"

section \<open>The merge engine: \<^verbatim>\<open>_merge_data_structures\<close>\<close>

text \<open>
  \<^verbatim>\<open>
  def _merge_data_structures(self, existing, new):
      if isinstance(existing, dict) and isinstance(new, dict):
          merged = existing.copy()
          for key, value in new.items():
              if key in merged:
                  merged[key] = self._merge_data_structures(merged[key], value)
              else:
                  merged[key] = value
          return merged
      elif isinstance(existing, list) and isinstance(new, list):
          return existing + new
      else:
          return new
  \<close>
  \<open>merge_items merged items\<close> is the \<^verbatim>\<open>for\<close> loop: \<open>merged\<close> is the dictionary built so
  far, \<open>items\<close> what is left of \<^verbatim>\<open>new.items()\<close>.
\<close>

function (sequential)
  merge_data_structures :: "json \<Rightarrow> json \<Rightarrow> json" and
  merge_items :: "dict \<Rightarrow> dict \<Rightarrow> dict"
where
  "merge_data_structures (JDict existing) (JDict new) = JDict (merge_items existing new)"
| "merge_data_structures (JList existing) (JList new) = JList (existing @ new)"
| "merge_data_structures existing new = new"
| "merge_items merged [] = merged"
| "merge_items merged ((key, val) # items) =
     merge_items
       (case map_of merged key of
          Some old \<Rightarrow> AList.update key (merge_data_structures old val) merged
        | None \<Rightarrow> AList.update key val merged)
       items"
  by pat_completeness auto
termination
  by (relation "measure (\<lambda>x. case x of
          Inl (existing, new) \<Rightarrow> size new
        | Inr (merged, items) \<Rightarrow> size_list (size_prod (\<lambda>k. 0) size) items)")
     simp_all

text \<open>Following a path of keys down through nested dictionaries.\<close>

fun lookup_path :: "string list \<Rightarrow> json \<Rightarrow> json option" where
  "lookup_path [] v = Some v"
| "lookup_path (k # ks) (JDict m) =
     (case map_of m k of None \<Rightarrow> None | Some v \<Rightarrow> lookup_path ks v)"
| "lookup_path (k # ks) v = None"

section \<open>Python operations on dynamically typed values\<close>

text \<open>
  The profile code calls dictionary methods on values that were read back from a file,
  so each call can raise when the value has another type. Every raise is a value here:
  \<open>Inl e\<close> is the exception, \<open>Inr v\<close> the result.
\<close>

datatype error =
    AttributeError
  | KeyError
  | TypeError
  | JSONDecodeError
  | IOError
  | UnicodeDecodeError

definition bind_res :: "error + 'a \<Rightarrow> ('a \<Rightarrow> error + 'b) \<Rightarrow> error + 'b" where
  "bind_res m f = (case m of Inl e \<Rightarrow> Inl e | Inr v \<Rightarrow> f v)"

text \<open>A \<^verbatim>\<open>for\<close> loop over a list whose body may raise: the first raise ends the loop.\<close>

fun for_each :: "('a \<Rightarrow> 's \<Rightarrow> error + 's) \<Rightarrow> 'a list \<Rightarrow> 's \<Rightarrow> error + 's" where
  "for_each body [] s = Inr s"
| "for_each body (x # xs) s =
     (case body x s of Inl e \<Rightarrow> Inl e | Inr s' \<Rightarrow> for_each body xs s')"

text \<open>
  \<^verbatim>\<open>x.get(key, default)\<close>, \<^verbatim>\<open>x.items()\<close>, \<^verbatim>\<open>x.copy()\<close>, \<^verbatim>\<open>x[key]\<close>,
  \<^verbatim>\<open>x[key] = v\<close> and \<^verbatim>\<open>x.append(v)\<close>. Only dictionaries have \<^verbatim>\<open>get\<close> and
  \<^verbatim>\<open>items\<close>; dictionaries and lists have \<^verbatim>\<open>copy\<close>; a list or a string subscripted with
  a string key raises TypeError, as subscripting a number, a boolean or \<^verbatim>\<open>None\<close> does.
\<close>

fun py_get :: "json \<Rightarrow> string \<Rightarrow> json \<Rightarrow> error + json" where
  "py_get (JDict d) key dflt =
     (case map_of d key of Some v \<Rightarrow> Inr v | None \<Rightarrow> Inr dflt)"
| "py_get x key dflt = Inl AttributeError"

fun py_items :: "json \<Rightarrow> error + dict" where
  "py_items (JDict d) = Inr d"
| "py_items x = Inl AttributeError"

fun py_copy :: "json \<Rightarrow> error + json" where
  "py_copy (JDict d) = Inr (JDict d)"
| "py_copy (JList xs) = Inr (JList xs)"
| "py_copy x = Inl AttributeError"

fun py_getitem :: "json \<Rightarrow> string \<Rightarrow> error + json" where
  "py_getitem (JDict d) key =
     (case map_of d key of Some v \<Rightarrow> Inr v | None \<Rightarrow> Inl KeyError)"
| "py_getitem x key = Inl TypeError"

fun py_setitem :: "json \<Rightarrow> string \<Rightarrow> json \<Rightarrow> error + json" where
  "py_setitem (JDict d) key v = Inr (JDict (AList.update key v d))"
| "py_setitem x key v = Inl TypeError"

fun py_append :: "json \<Rightarrow> json \<Rightarrow> error + json" where
  "py_append (JList xs) v = Inr (JList (xs @ [v]))"
| "py_append x v = Inl AttributeError"

text \<open>Truth value testing, as in \<^verbatim>\<open>if existing_profile:\<close>.\<close>

fun truthy :: "json \<Rightarrow> bool" where
  "truthy JNull = False"
| "truthy (JBool b) = b"
| "truthy (JInt i) = (i \<noteq> 0)"
| "truthy (JFloat r) = (r \<noteq> 0)"
| "truthy (JStr s) = (s \<noteq> [])"
| "truthy (JList xs) = (xs \<noteq> [])"
| "truthy (JDict d) = (d \<noteq> [])"

section \<open>The summary generator: \<^verbatim>\<open>_generate_summary\<close>\<close>

text \<open>
  \<^verbatim>\<open>
  summary = {"total_scans": 0, "social_media_profiles": 0, "breaches_found": 0,
             "public_records": 0, "domains_checked": 0, "images_found": 0,
             "locations_found": 0}
  for search_type, scan_data in scan_results.get("results", {}).items():
      if isinstance(scan_data, dict) and scan_data.get("status") == "completed":
          summary["total_scans"] += 1
          data = scan_data.get("data", {})
          if search_type == "social":
              summary["social_media_profiles"] = data.get("summary", {}).get("found_profiles", 0)
          elif search_type == "breach":
              summary["breaches_found"] = data.get("summary", {}).get("total_breaches", 0)
          elif search_type == "public":
              summary["public_records"] = data.get("summary", {}).get("total_records", 0)
          elif search_type == "domain":
              summary["domains_checked"] = data.get("summary", {}).get("domains_checked", 0)
          elif search_type == "images":
              summary["images_found"] = data.get("summary", {}).get("images_found", 0)
          elif search_type == "geolocation":
              summary["locations_found"] = data.get("summary", {}).get("total_locations", 0)
  return summary
  \<close>
  The dictionary \<^verbatim>\<open>summary\<close> has a fixed shape: it is a record while it is computed and
  \<open>summary_json\<close> is the dictionary returned. \<^verbatim>\<open>total_scans\<close> is only ever incremented, so
  it is an integer; the other fields take whatever value the collector's data holds.
\<close>

record summary =
  total_scans :: int
  social_media_profiles :: json
  breaches_found :: json
  public_records :: json
  domains_checked :: json
  images_found :: json
  locations_found :: json

definition empty_summary :: summary where
  "empty_summary =
     \<lparr>total_scans = 0, social_media_profiles = JInt 0, breaches_found = JInt 0,
      public_records = JInt 0, domains_checked = JInt 0, images_found = JInt 0,
      locations_found = JInt 0\<rparr>"

definition summary_json :: "summary \<Rightarrow> json" where
  "summary_json s =
     JDict [(''total_scans'', JInt (total_scans s)),
            (''social_media_profiles'', social_media_profiles s),
            (''breaches_found'', breaches_found s),
            (''public_records'', public_records s),
            (''domains_checked'', domains_checked s),
            (''images_found'', images_found s),
            (''locations_found'', locations_found s)]"

text \<open>\<^verbatim>\<open>data.get("summary", {}).get(field, 0)\<close>\<close>

definition summary_count :: "json \<Rightarrow> string \<Rightarrow> error + json" where
  "summary_count data field =
     bind_res (py_get data ''summary'' (JDict [])) (\<lambda>s. py_get s field (JInt 0))"

fun summary_step :: "string \<times> json \<Rightarrow> summary \<Rightarrow> error + summary" where
  "summary_step (search_type, JDict scan_data) summary =
     (if map_of scan_data ''status'' = Some (JStr ''completed'') then
        (let summary = summary\<lparr>total_scans := total_scans summary + 1\<rparr>;
             data = (case map_of scan_data ''data'' of Some d \<Rightarrow> d | None \<Rightarrow> JDict [])
         in if search_type = ''social'' then
              bind_res (summary_count data ''found_profiles'')
                (\<lambda>c. Inr (summary\<lparr>social_media_profiles := c\<rparr>))
            else if search_type = ''breach'' then
              bind_res (summary_count data ''total_breaches'')
                (\<lambda>c. Inr (summary\<lparr>breaches_found := c\<rparr>))
            else if search_type = ''public'' then
              bind_res (summary_count data ''total_records'')
                (\<lambda>c. Inr (summary\<lparr>public_records := c\<rparr>))
            else if search_type = ''domain'' then
              bind_res (summary_count data ''domains_checked'')
                (\<lambda>c. Inr (summary\<lparr>domains_checked := c\<rparr>))
            else if search_type = ''images'' then
              bind_res (summary_count data ''images_found'')
                (\<lambda>c. Inr (summary\<lparr>images_found := c\<rparr>))
            else if search_type = ''geolocation'' then
              bind_res (summary_count data ''total_locations'')
                (\<lambda>c. Inr (summary\<lparr>locations_found := c\<rparr>))
            else Inr summary)
      else Inr summary)"
| "summary_step (search_type, scan_data) summary = Inr summary"

definition generate_summary :: "json \<Rightarrow> error + json" where
  "generate_summary scan_results =
     bind_res (py_get scan_results ''results'' (JDict [])) (\<lambda>results.
     bind_res (py_items results) (\<lambda>items.
     bind_res (for_each summary_step items empty_summary) (\<lambda>summary.
     Inr (summary_json summary))))"

section \<open>Merging a session into a profile\<close>

text \<open>
  \<^verbatim>\<open>
  def _merge_search_data(self, existing, new):
      merged = existing.copy()
      if "data" in new and "data" in existing:
          merged["data"] = self._merge_data_structures(existing["data"], new["data"])
      if "scan_time" in new:
          merged["scan_time"] = new["scan_time"]
      if "status" in new:
          merged["status"] = new["status"]
      return merged
  \<close>
  Both arguments are dictionaries: the caller checks it.
\<close>

definition merge_search_data :: "dict \<Rightarrow> dict \<Rightarrow> dict" where
  "merge_search_data existing new =
     (let merged = existing;
          merged = (case (map_of new ''data'', map_of existing ''data'') of
                      (Some nd, Some ed) \<Rightarrow>
                        AList.update ''data'' (merge_data_structures ed nd) merged
                    | _ \<Rightarrow> merged);
          merged = (case map_of new ''scan_time'' of
                      Some t \<Rightarrow> AList.update ''scan_time'' t merged
                    | None \<Rightarrow> merged);
          merged = (case map_of new ''status'' of
                      Some st \<Rightarrow> AList.update ''status'' st merged
                    | None \<Rightarrow> merged)
      in merged)"

text \<open>
  \<^verbatim>\<open>
  def _merge_scan_results(self, existing, new):
      merged = existing.copy()
      for search_type, new_data in new.get("results", {}).items():
          if search_type not in merged.get("results", {}):
              merged.setdefault("results", {})[search_type] = new_data
          else:
              existing_data = merged["results"][search_type]
              if isinstance(existing_data, dict) and isinstance(new_data, dict):
                  merged["results"][search_type] = self._merge_search_data(existing_data, new_data)
      return merged
  \<close>
  \<open>merge_results_step\<close> is the loop body. When \<^verbatim>\<open>merged\<close> is a list it has no
  \<^verbatim>\<open>get\<close>. When \<^verbatim>\<open>merged["results"]\<close> is there and is not a dictionary the body raises
  TypeError whichever branch it takes: \<^verbatim>\<open>in\<close> is not defined on a number, a boolean or
  \<^verbatim>\<open>None\<close>, and a list or a string accepts the test but not the string subscript that
  follows in either branch.
\<close>

fun merge_results_step :: "string \<times> json \<Rightarrow> json \<Rightarrow> error + json" where
  "merge_results_step (search_type, new_data) (JDict merged) =
     (case map_of merged ''results'' of
        None \<Rightarrow>
          Inr (JDict (AList.update ''results'' (JDict [(search_type, new_data)]) merged))
      | Some (JDict results) \<Rightarrow>
          (case map_of results search_type of
             None \<Rightarrow>
               Inr (JDict (AList.update ''results''
                      (JDict (AList.update search_type new_data results)) merged))
           | Some existing_data \<Rightarrow>
               (case (existing_data, new_data) of
                  (JDict ed, JDict nd) \<Rightarrow>
                    Inr (JDict (AList.update ''results''
                           (JDict (AList.update search_type
                                     (JDict (merge_search_data ed nd)) results)) merged))
                | _ \<Rightarrow> Inr (JDict merged)))
      | Some other \<Rightarrow> Inl TypeError)"
| "merge_results_step (search_type, new_data) merged = Inl AttributeError"

definition merge_scan_results :: "json \<Rightarrow> json \<Rightarrow> error + json" where
  "merge_scan_results existing new =
     bind_res (py_copy existing) (\<lambda>merged.
     bind_res (py_get new ''results'' (JDict [])) (\<lambda>results.
     bind_res (py_items results) (\<lambda>items.
     for_each merge_results_step items merged)))"

text \<open>
  \<^verbatim>\<open>
  def _merge_profiles(self, existing, new):
      merged = existing.copy()
      merged["last_updated"] = new["last_updated"]
      scan_entry = {"timestamp": new["last_updated"], "scan_results": new["current_data"]}
      merged["scan_history"].append(scan_entry)
      merged["current_data"] = self._merge_scan_results(
          merged.get("current_data", {}), new["current_data"])
      merged["summary"] = self._generate_summary(merged["current_data"])
      return merged
  \<close>
  The \<^verbatim>\<open>append\<close> changes the list that \<^verbatim>\<open>merged["scan_history"]\<close> refers to, so the
  model stores the longer list under that key.
\<close>

definition merge_profiles :: "json \<Rightarrow> json \<Rightarrow> error + json" where
  "merge_profiles existing new =
     bind_res (py_copy existing) (\<lambda>merged.
     bind_res (py_getitem new ''last_updated'') (\<lambda>last_updated.
     bind_res (py_setitem merged ''last_updated'' last_updated) (\<lambda>merged.
     bind_res (py_getitem new ''current_data'') (\<lambda>new_data.
     let scan_entry = JDict [(''timestamp'', last_updated), (''scan_results'', new_data)] in
     bind_res (py_getitem merged ''scan_history'') (\<lambda>history.
     bind_res (py_append history scan_entry) (\<lambda>history.
     bind_res (py_setitem merged ''scan_history'' history) (\<lambda>merged.
     bind_res (py_get merged ''current_data'' (JDict [])) (\<lambda>old_data.
     bind_res (merge_scan_results old_data new_data) (\<lambda>current_data.
     bind_res (py_setitem merged ''current_data'' current_data) (\<lambda>merged.
     bind_res (generate_summary current_data) (\<lambda>summary.
     py_setitem merged ''summary'' summary)))))))))))"

section \<open>The profile store\<close>

text \<open>
  A profile is the file \<^verbatim>\<open>profiles_dir/<name>.json\<close>. The store maps a profile name to
  its file, if there is one. A file is what \<^verbatim>\<open>open(profile_file, 'r')\<close> followed by
  \<^verbatim>\<open>json.load(f)\<close> makes of it: a value, or one of the exceptions the two calls raise.
  \<^verbatim>\<open>json.dump\<close> followed by \<^verbatim>\<open>json.load\<close> gives a \<open>json\<close> value back as it was, so
  a written file is \<open>Content\<close> of the value written. Writing is taken to succeed.
\<close>

datatype profile_file =
    Content json
  | Malformed
  | Unreadable
  | Undecodable

type_synonym store = "string \<rightharpoonup> profile_file"

text \<open>
  \<open>Malformed\<close>: text that is not JSON (\<^verbatim>\<open>json.JSONDecodeError\<close>). \<open>Unreadable\<close>: the path
  exists and cannot be opened or read, as a directory or a file without read permission
  (\<^verbatim>\<open>OSError\<close>, of which \<^verbatim>\<open>IOError\<close> is an alias). \<open>Undecodable\<close>: bytes that are not
  text in the encoding of \<^verbatim>\<open>open\<close>, such as the byte 0xFF under UTF-8; reading raises
  \<^verbatim>\<open>UnicodeDecodeError\<close>, a \<^verbatim>\<open>ValueError\<close> that is neither a \<^verbatim>\<open>JSONDecodeError\<close> nor an
  \<^verbatim>\<open>OSError\<close>.
\<close>

fun read_json :: "profile_file \<Rightarrow> error + json" where
  "read_json (Content v) = Inr v"
| "read_json Malformed = Inl JSONDecodeError"
| "read_json Unreadable = Inl IOError"
| "read_json Undecodable = Inl UnicodeDecodeError"

text \<open>
  \<^verbatim>\<open>
  def load_profile(self, profile_name):
      profile_file = self.profiles_dir / f"{profile_name}.json"
      if not profile_file.exists():
          return None
      try:
          with open(profile_file, 'r') as f:
              return json.load(f)
      except (json.JSONDecodeError, IOError):
          return None
  \<close>
  The result \<open>Inr None\<close> is the returned \<^verbatim>\<open>None\<close>; an exception that the \<^verbatim>\<open>except\<close>
  clause does not name leaves the function.
\<close>

definition load_profile :: "store \<Rightarrow> string \<Rightarrow> error + json option" where
  "load_profile store profile_name =
     (case store profile_name of
        None \<Rightarrow> Inr None
      | Some f \<Rightarrow>
          (case read_json f of
             Inr v \<Rightarrow> Inr (Some v)
           | Inl JSONDecodeError \<Rightarrow> Inr None
           | Inl IOError \<Rightarrow> Inr None
           | Inl e \<Rightarrow> Inl e))"

section \<open>Profile names: \<^verbatim>\<open>_generate_profile_name\<close>\<close>

text \<open>
  A target is a \<^verbatim>\<open>Dict[str, str]\<close>. \<open>target_field t f\<close> is \<^verbatim>\<open>t.get(f)\<close> with a missing
  field read as the empty string, so that \<^verbatim>\<open>if target.get(f):\<close> is
  \<open>target_field t f \<noteq> []\<close>. Characters are code points below 256; \<open>py_space\<close> holds the
  ones \<^verbatim>\<open>str.split()\<close> splits at.
\<close>

type_synonym target = "(string \<times> string) list"

definition target_field :: "target \<Rightarrow> string \<Rightarrow> string" where
  "target_field t f = (case map_of t f of Some v \<Rightarrow> v | None \<Rightarrow> [])"

definition target_json :: "target \<Rightarrow> json" where
  "target_json t = JDict (map (\<lambda>p. (fst p, JStr (snd p))) t)"

definition py_space :: "char \<Rightarrow> bool" where
  "py_space c =
     (c \<in> {CHR 0x09, CHR 0x0A, CHR 0x0B, CHR 0x0C, CHR 0x0D, CHR 0x1C, CHR 0x1D, CHR 0x1E,
            CHR 0x1F, CHR 0x20, CHR 0x85, CHR 0xA0})"

text \<open>\<^verbatim>\<open>s.split()\<close>: the maximal runs of characters that are not whitespace.\<close>

fun split_acc :: "string \<Rightarrow> string \<Rightarrow> string list" where
  "split_acc word [] = (if word = [] then [] else [word])"
| "split_acc word (c # cs) =
     (if py_space c then (if word = [] then split_acc [] cs else word # split_acc [] cs)
      else split_acc (word @ [c]) cs)"

definition py_split :: "string \<Rightarrow> string list" where
  "py_split s = split_acc [] s"

text \<open>
  \<^verbatim>\<open>
  def _generate_profile_name(self, target):
      if target.get("username"):
          return f"profile_{target['username']}"
      if target.get("email"):
          email_username = target["email"].split("@")[0]
          return f"profile_{email_username}"
      if target.get("domain"):
          return f"profile_{target['domain']}"
      if target.get("full_name"):
          name_parts = target["full_name"].split()
          if len(name_parts) >= 2:
              return f"profile_{name_parts[0]}_{name_parts[1]}"
      return f"profile_{datetime.now().strftime('%Y%m%d_%H%M%S')}"
  \<close>
  \<open>stamp\<close> is what the clock gives for \<^verbatim>\<open>datetime.now().strftime('%Y%m%d_%H%M%S')\<close>.
\<close>

definition generate_profile_name :: "string \<Rightarrow> target \<Rightarrow> string" where
  "generate_profile_name stamp target =
     (if target_field target ''username'' \<noteq> [] then
        ''profile_'' @ target_field target ''username''
      else if target_field target ''email'' \<noteq> [] then
        ''profile_'' @ takeWhile (\<lambda>c. c \<noteq> CHR ''@'') (target_field target ''email'')
      else if target_field target ''domain'' \<noteq> [] then
        ''profile_'' @ target_field target ''domain''
      else
        (case py_split (target_field target ''full_name'') of
           first # second # others \<Rightarrow> ''profile_'' @ first @ ''_'' @ second
         | _ \<Rightarrow> ''profile_'' @ stamp))"

section \<open>Saving: \<^verbatim>\<open>save_profile\<close>\<close>

text \<open>
  \<^verbatim>\<open>
  def save_profile(self, target, scan_results, profile_name=None):
      if not profile_name:
          profile_name = self._generate_profile_name(target)
      profile_data = {
          "target": target,
          "profile_name": profile_name,
          "created_at": datetime.now().isoformat(),
          "last_updated": datetime.now().isoformat(),
          "scan_history": [],
          "current_data": scan_results,
          "summary": self._generate_summary(scan_results)
      }
      existing_profile = self.load_profile(profile_name)
      if existing_profile:
          profile_data = self._merge_profiles(existing_profile, profile_data)
      profile_file = self.profiles_dir / f"{profile_name}.json"
      with open(profile_file, 'w') as f:
          json.dump(profile_data, f, indent=2)
      return profile_name
  \<close>
  The clock is read up to three times; \<open>clock\<close> holds the three readings. The function
  returns the name and leaves the store changed, so the model returns both.
\<close>

record clock =
  stamp :: string
  created_iso :: string
  updated_iso :: string

definition new_profile :: "clock \<Rightarrow> target \<Rightarrow> string \<Rightarrow> json \<Rightarrow> json \<Rightarrow> json" where
  "new_profile clk target profile_name scan_results summary =
     JDict [(''target'', target_json target),
            (''profile_name'', JStr profile_name),
            (''created_at'', JStr (created_iso clk)),
            (''last_updated'', JStr (updated_iso clk)),
            (''scan_history'', JList []),
            (''current_data'', scan_results),
            (''summary'', summary)]"

definition resolve_name :: "clock \<Rightarrow> target \<Rightarrow> string option \<Rightarrow> string" where
  "resolve_name clk target profile_name =
     (case profile_name of
        None \<Rightarrow> generate_profile_name (stamp clk) target
      | Some n \<Rightarrow> if n = [] then generate_profile_name (stamp clk) target else n)"

definition save_profile ::
  "clock \<Rightarrow> store \<Rightarrow> target \<Rightarrow> json \<Rightarrow> string option \<Rightarrow> error + string \<times> store" where
  "save_profile clk store target scan_results profile_name =
     (let profile_name = resolve_name clk target profile_name in
      bind_res (generate_summary scan_results) (\<lambda>summary.
      let profile_data = new_profile clk target profile_name scan_results summary in
      bind_res (load_profile store profile_name) (\<lambda>existing_profile.
      bind_res (case existing_profile of
                  None \<Rightarrow> Inr profile_data
                | Some existing \<Rightarrow>
                    if truthy existing then merge_profiles existing profile_data
                    else Inr profile_data) (\<lambda>profile_data.
      Inr (profile_name, store(profile_name \<mapsto> Content profile_data))))))"

text \<open>What a stored profile holds under a key, when it is a readable dictionary.\<close>

definition stored_field :: "store \<Rightarrow> string \<Rightarrow> string \<Rightarrow> json option" where
  "stored_field store profile_name key =
     (case store profile_name of
        Some (Content (JDict d)) \<Rightarrow> map_of d key
      | _ \<Rightarrow> None)"

section \<open>The scan orchestrator: \<^verbatim>\<open>OSINTScanner.scan_target\<close>\<close>

text \<open>
  \<^verbatim>\<open>
  def scan_target(self, target, search_types, nsfw=False):
      results = {"target": target, "scan_time": datetime.now().isoformat(),
                 "search_types": search_types, "results": {}}
      self.logger.info(f"Starting scan for target: {target}")
      for search_type in search_types:
          if search_type in self.scanners:
              try:
                  self.logger.info(f"Running {search_type} scan...")
                  start_time = time.time()
                  scanner = self.scanners[search_type]
                  scan_results = scanner.scan(target, nsfw=nsfw)
                  scan_time = time.time() - start_time
                  results["results"][search_type] = {
                      "data": scan_results, "scan_time": scan_time, "status": "completed"}
                  self.logger.info(f"{search_type} scan completed in {scan_time:.2f}s")
              except Exception as e:
                  self.logger.error(f"Error in {search_type} scan: {e}")
                  results["results"][search_type] = {
                      "data": {}, "error": str(e), "status": "failed"}
          else:
              self.logger.warning(f"Unknown search type: {search_type}")
      return results
  \<close>
  A collector is the \<^verbatim>\<open>scan\<close> method of a registered scanner: it returns its data
  (\<open>Inr\<close>) or raises an \<^verbatim>\<open>Exception\<close> \<^verbatim>\<open>e\<close>, of which \<open>Inl\<close> holds \<^verbatim>\<open>str(e)\<close>.
  \<open>scanners\<close> is the table \<^verbatim>\<open>self.scanners\<close>. The environment gives the time at which the
  scan starts and, for each category, the time measured around its collector's call.
  The log is the list of records written, by level and category.
\<close>

type_synonym collector = "target \<Rightarrow> bool \<Rightarrow> string + json"

record scan_env =
  started_iso :: string
  elapsed :: "string \<Rightarrow> real"

datatype log_record =
    Info_starting
  | Info_running string
  | Info_completed string
  | Error_in_scan string string
  | Warning_unknown string

definition completed_entry :: "json \<Rightarrow> real \<Rightarrow> json" where
  "completed_entry scan_results scan_time =
     JDict [(''data'', scan_results), (''scan_time'', JFloat scan_time),
            (''status'', JStr ''completed'')]"

definition failed_entry :: "string \<Rightarrow> json" where
  "failed_entry e =
     JDict [(''data'', JDict []), (''error'', JStr e), (''status'', JStr ''failed'')]"

fun scan_step ::
  "(string \<rightharpoonup> collector) \<Rightarrow> scan_env \<Rightarrow> target \<Rightarrow> bool \<Rightarrow> string \<Rightarrow>
   dict \<times> log_record list \<Rightarrow> dict \<times> log_record list" where
  "scan_step scanners env target nsfw search_type (results, logged) =
     (case scanners search_type of
        Some scanner \<Rightarrow>
          (case scanner target nsfw of
             Inr scan_results \<Rightarrow>
               (AList.update search_type
                  (completed_entry scan_results (elapsed env search_type)) results,
                logged @ [Info_running search_type, Info_completed search_type])
           | Inl e \<Rightarrow>
               (AList.update search_type (failed_entry e) results,
                logged @ [Info_running search_type, Error_in_scan search_type e]))
      | None \<Rightarrow> (results, logged @ [Warning_unknown search_type]))"

definition scan_loop ::
  "(string \<rightharpoonup> collector) \<Rightarrow> scan_env \<Rightarrow> target \<Rightarrow> bool \<Rightarrow> string list \<Rightarrow>
   dict \<times> log_record list" where
  "scan_loop scanners env target nsfw search_types =
     fold (scan_step scanners env target nsfw) search_types ([], [Info_starting])"

definition scan_target ::
  "(string \<rightharpoonup> collector) \<Rightarrow> scan_env \<Rightarrow> target \<Rightarrow> string list \<Rightarrow> bool \<Rightarrow>
   json \<times> log_record list" where
  "scan_target scanners env target search_types nsfw =
     (let (results, logged) = scan_loop scanners env target nsfw search_types
      in (JDict [(''target'', target_json target),
                 (''scan_time'', JStr (started_iso env)),
                 (''search_types'', JList (map JStr search_types)),
                 (''results'', JDict results)],
          logged))"

text \<open>
  The entry that the loop body stores for a registered category, as a function of what its
  collector did: the two assignments to \<^verbatim>\<open>results["results"][search_type]\<close>.
\<close>

definition collector_entry :: "scan_env \<Rightarrow> string \<Rightarrow> string + json \<Rightarrow> json" where
  "collector_entry env search_type outcome =
     (case outcome of
        Inr scan_results \<Rightarrow> completed_entry scan_results (elapsed env search_type)
      | Inl e \<Rightarrow> failed_entry e)"

text \<open>
  A registry with two collectors for the examples: the social one raises, the breach one
  returns.
\<close>

definition failing_collector :: collector where
  "failing_collector target nsfw = Inl ''timeout''"

definition breach_collector :: collector where
  "breach_collector target nsfw = Inr (JDict [(''breaches'', JList [])])"

definition example_scanners :: "string \<rightharpoonup> collector" where
  "example_scanners = [''social'' \<mapsto> failing_collector, ''breach'' \<mapsto> breach_collector]"

definition example_env :: scan_env where
  "example_env = \<lparr>started_iso = ''2024-01-01T12:00:00'', elapsed = (\<lambda>c. 1)\<rparr>"

text \<open>
  \<^verbatim>\<open>
  def validate_target(self, target):
      required_fields = ["email", "username", "full_name", "phone", "domain"]
      return any(target.get(field) for field in required_fields)
  \<close>
\<close>

definition validate_target :: "target \<Rightarrow> bool" where
  "validate_target target =
     list_ex (\<lambda>field. target_field target field \<noteq> [])
       [''email'', ''username'', ''full_name'', ''phone'', ''domain'']"

section \<open>Sequences of saves, and the history\<close>

text \<open>
  A sequence of calls of \<^verbatim>\<open>save_profile\<close>, each with its own arguments and clock
  readings, run one after the other on the store; the first exception ends the sequence.
\<close>

record save_call =
  call_clock :: clock
  call_target :: target
  call_session :: json
  call_name :: "string option"

definition resolved :: "save_call \<Rightarrow> string" where
  "resolved c = resolve_name (call_clock c) (call_target c) (call_name c)"

fun save_all :: "store \<Rightarrow> save_call list \<Rightarrow> error + store" where
  "save_all store [] = Inr store"
| "save_all store (c # calls) =
     (case save_profile (call_clock c) store (call_target c) (call_session c) (call_name c) of
        Inl e \<Rightarrow> Inl e
      | Inr (n, store') \<Rightarrow> save_all store' calls)"

text \<open>The entry that \<^verbatim>\<open>_merge_profiles\<close> appends to \<^verbatim>\<open>scan_history\<close>.\<close>

definition history_entry :: "clock \<Rightarrow> json \<Rightarrow> json" where
  "history_entry clk session =
     JDict [(''timestamp'', JStr (updated_iso clk)), (''scan_results'', session)]"

text \<open>Folding sessions, in order, through \<^verbatim>\<open>_merge_scan_results\<close>.\<close>

fun merge_sessions :: "json \<Rightarrow> json list \<Rightarrow> error + json" where
  "merge_sessions acc [] = Inr acc"
| "merge_sessions acc (session # rest) =
     (case merge_scan_results acc session of
        Inl e \<Rightarrow> Inl e
      | Inr acc' \<Rightarrow> merge_sessions acc' rest)"

text \<open>
  From the specification, for comparison with the code: a profile is reconstructible
  when its \<^verbatim>\<open>current_data\<close> is the result of folding the sessions of its
  \<^verbatim>\<open>scan_history\<close> entries, in order, through the merge, starting from an empty tree.
\<close>

definition history_sessions :: "json list \<Rightarrow> json list" where
  "history_sessions history =
     map (\<lambda>entry. case lookup_path [''scan_results''] entry of Some s \<Rightarrow> s | None \<Rightarrow> JNull)
       history"

definition reconstructible :: "json \<Rightarrow> bool" where
  "reconstructible profile =
     (case (lookup_path [''scan_history''] profile, lookup_path [''current_data''] profile) of
        (Some (JList history), Some current_data) \<Rightarrow>
          merge_sessions (JDict []) (history_sessions history) = Inr current_data
      | _ \<Rightarrow> False)"

text \<open>The profile that a successful save left under the name it returned.\<close>

definition stored_profile :: "error + string \<times> store \<Rightarrow> json option" where
  "stored_profile saved =
     (case saved of
        Inr (name, store) \<Rightarrow>
          (case store name of Some (Content profile) \<Rightarrow> Some profile | _ \<Rightarrow> None)
      | Inl e \<Rightarrow> None)"

section \<open>A scenario: two saves for one target\<close>

text \<open>
  The scenario of \<^verbatim>\<open>test_merge_profiles\<close>: a target with a username, a first session
  with the social category and a second one with the breach category, saved one after
  the other into an empty store. The payloads have the shape the collectors produce, with
  the counts under \<^verbatim>\<open>data["summary"]\<close>.
\<close>

definition alice :: target where
  "alice = [(''username'', ''alice'')]"

definition clock1 :: clock where
  "clock1 = \<lparr>stamp = ''20240101_120000'', created_iso = ''2024-01-01T12:00:00.000100'',
             updated_iso = ''2024-01-01T12:00:00.000200''\<rparr>"

definition clock2 :: clock where
  "clock2 = \<lparr>stamp = ''20240102_120000'', created_iso = ''2024-01-02T12:00:00.000100'',
             updated_iso = ''2024-01-02T12:00:00.000200''\<rparr>"

definition session_of :: "string \<Rightarrow> string \<Rightarrow> json \<Rightarrow> json" where
  "session_of started search_type data =
     JDict [(''target'', target_json alice),
            (''scan_time'', JStr started),
            (''search_types'', JList [JStr search_type]),
            (''results'', JDict [(search_type, completed_entry data 1)])]"

definition social_session :: json where
  "social_session =
     session_of ''2024-01-01T11:59:59'' ''social''
       (JDict [(''platforms'', JDict [(''github'', JList [JStr ''alice''])]),
               (''summary'', JDict [(''found_profiles'', JInt 2)])])"

definition breach_session :: json where
  "breach_session =
     session_of ''2024-01-02T11:59:59'' ''breach''
       (JDict [(''breaches'', JList [JStr ''example.com'']),
               (''summary'', JDict [(''total_breaches'', JInt 1)])])"

definition first_save :: "error + string \<times> store" where
  "first_save = save_profile clock1 Map.empty alice social_session None"

definition second_save :: "error + string \<times> store" where
  "second_save =
     bind_res first_save (\<lambda>saved. save_profile clock2 (snd saved) alice breach_session None)"

text \<open>
  The same first save with the payload \<^verbatim>\<open>{"found_profiles": 2}\<close>, the count at the top
  of the data and not under \<^verbatim>\<open>"summary"\<close>.
\<close>

definition flat_session :: json where
  "flat_session =
     session_of ''2024-01-01T11:59:59'' ''social'' (JDict [(''found_profiles'', JInt 2)])"

definition flat_save :: "error + string \<times> store" where
  "flat_save = save_profile clock1 Map.empty alice flat_session None"

text \<open>
  What the code leaves in the store in this scenario: the profile after the first save,
  and the profile after the second.
\<close>

definition first_profile :: json where
  "first_profile =
     JDict [(''target'', target_json alice),
            (''profile_name'', JStr ''profile_alice''),
            (''created_at'', JStr (created_iso clock1)),
            (''last_updated'', JStr (updated_iso clock1)),
            (''scan_history'', JList []),
            (''current_data'', social_session),
            (''summary'', JDict [(''total_scans'', JInt 1),
                                (''social_media_profiles'', JInt 2),
                                (''breaches_found'', JInt 0),
                                (''public_records'', JInt 0),
                                (''domains_checked'', JInt 0),
                                (''images_found'', JInt 0),
                                (''locations_found'', JInt 0)])]"

definition merged_data :: json where
  "merged_data =
     JDict [(''target'', target_json alice),
            (''scan_time'', JStr ''2024-01-01T11:59:59''),
            (''search_types'', JList [JStr ''social'']),
            (''results'', JDict
               [(''social'', completed_entry
                   (JDict [(''platforms'', JDict [(''github'', JList [JStr ''alice''])]),
                           (''summary'', JDict [(''found_profiles'', JInt 2)])]) 1),
                (''breach'', completed_entry
                   (JDict [(''breaches'', JList [JStr ''example.com'']),
                           (''summary'', JDict [(''total_breaches'', JInt 1)])]) 1)])]"

definition second_profile :: json where
  "second_profile =
     JDict [(''target'', target_json alice),
            (''profile_name'', JStr ''profile_alice''),
            (''created_at'', JStr (created_iso clock1)),
            (''last_updated'', JStr (updated_iso clock2)),
            (''scan_history'', JList [history_entry clock2 breach_session]),
            (''current_data'', merged_data),
            (''summary'', JDict [(''total_scans'', JInt 2),
                                (''social_media_profiles'', JInt 2),
                                (''breaches_found'', JInt 1),
                                (''public_records'', JInt 0),
                                (''domains_checked'', JInt 0),
                                (''images_found'', JInt 0),
                                (''locations_found'', JInt 0)])]"

text \<open>The value at a path of keys in the profile that a save left in the store.\<close>

definition saved_value :: "error + string \<times> store \<Rightarrow> string list \<Rightarrow> json option" where
  "saved_value saved path =
     (case stored_profile saved of Some profile \<Rightarrow> lookup_path path profile | None \<Rightarrow> None)"

section \<open>Properties of the merge engine\<close>

lemma merge_items_keys:
  "fst ` set (merge_items merged items) = fst ` set merged \<union> fst ` set items"
proof (induction items arbitrary: merged)
  case Nil
  show ?case by simp
next
  case (Cons p items)
  obtain k v where p: "p = (k, v)" by (cases p)
  show ?case
    unfolding p by (simp add: Cons.IH dom_update split: option.split)
qed

lemma merge_items_lookup:
  "distinct (map fst items) \<Longrightarrow>
   map_of (merge_items merged items) k =
     (case map_of items k of
        None \<Rightarrow> map_of merged k
      | Some v \<Rightarrow>
          (case map_of merged k of
             None \<Rightarrow> Some v
           | Some old \<Rightarrow> Some (merge_data_structures old v)))"
proof (induction items arbitrary: merged)
  case Nil
  show ?case by simp
next
  case (Cons p items)
  obtain k' v' where p: "p = (k', v')" by (cases p)
  from Cons.prems have d: "distinct (map fst items)" and n: "k' \<notin> fst ` set items"
    by (simp_all add: p)
  from n have none: "map_of items k' = None"
    by (simp add: map_of_eq_None_iff)
  show ?case
  proof (cases "k' = k")
    case True
    from none have "map_of items k = None"
      unfolding True .
    then show ?thesis
      unfolding p True by (simp add: Cons.IH [OF d] update_conv' split: option.split)
  next
    case False
    then show ?thesis
      by (simp add: p Cons.IH [OF d] update_conv' split: option.split)
  qed
qed

lemma merge_scalar:
  "is_scalar x \<or> is_scalar y \<Longrightarrow> merge_data_structures x y = y"
  by (cases x; cases y; simp)

lemma merge_items_self_lookup:
  assumes "distinct (map fst m)"
  shows "map_of (merge_items m m) k = map_option (\<lambda>v. merge_data_structures v v) (map_of m k)"
  by (simp add: merge_items_lookup [OF assms] split: option.split)

lemma lookup_path_merge_self:
  "wf_json A \<Longrightarrow>
   lookup_path p (merge_data_structures A A) =
     map_option (\<lambda>v. merge_data_structures v v) (lookup_path p A)"
proof (induction p arbitrary: A)
  case Nil
  show ?case by simp
next
  case (Cons k ks)
  show ?case
  proof (cases A)
    case (JDict m)
    with Cons.prems have d: "distinct (map fst m)" and sub: "\<forall>p \<in> set m. wf_json (snd p)"
      by simp_all
    show ?thesis
    proof (cases "map_of m k")
      case None
      then show ?thesis
        by (simp add: JDict merge_items_self_lookup [OF d])
    next
      case (Some v)
      then have "(k, v) \<in> set m" by (rule map_of_SomeD)
      with sub have "wf_json v" by force
      from Cons.IH [OF this] Some show ?thesis
        by (simp add: JDict merge_items_self_lookup [OF d])
    qed
  qed simp_all
qed

text \<open>
  Claim C1. For mapping trees \<open>A = JDict a\<close> and \<open>B = JDict b\<close> (\<open>b\<close> a Python
  dictionary, so without a repeated key), the merge is a mapping that has every key of
  \<open>A\<close> and every key of \<open>B\<close>; under a key that both have with scalar values it holds the
  value of \<open>B\<close>; under a key that both have with lists it holds a list whose length is the
  sum of the two lengths.
\<close>

theorem merge_mapping_trees:
  assumes "distinct (map fst b)"
  shows "\<exists>m. merge_data_structures (JDict a) (JDict b) = JDict m
     \<and> fst ` set a \<union> fst ` set b \<subseteq> fst ` set m
     \<and> (\<forall>k x y. map_of a k = Some x \<and> map_of b k = Some y \<and> is_scalar x \<and> is_scalar y
           \<longrightarrow> map_of m k = Some y)
     \<and> (\<forall>k xs ys. map_of a k = Some (JList xs) \<and> map_of b k = Some (JList ys)
           \<longrightarrow> (\<exists>zs. map_of m k = Some (JList zs) \<and> length zs = length xs + length ys))"
proof -
  let ?m = "merge_items a b"
  have shape: "merge_data_structures (JDict a) (JDict b) = JDict ?m"
    by simp
  have keys: "fst ` set a \<union> fst ` set b \<subseteq> fst ` set ?m"
    by (simp add: merge_items_keys)
  have scalars: "map_of ?m k = Some y"
    if "map_of a k = Some x \<and> map_of b k = Some y \<and> is_scalar x \<and> is_scalar y" for k x y
    using that by (simp add: merge_items_lookup [OF assms] merge_scalar)
  have lists: "\<exists>zs. map_of ?m k = Some (JList zs) \<and> length zs = length xs + length ys"
    if "map_of a k = Some (JList xs) \<and> map_of b k = Some (JList ys)" for k xs ys
    using that by (simp add: merge_items_lookup [OF assms])
  from shape keys scalars lists show ?thesis
    by blast
qed

theorem merge_mapping_trees_witness:
  "distinct (map fst [(''name'', JStr ''b''), (''tags'', JList [JInt 2, JInt 3]), (''new'', JNull)])
   \<and> (\<exists>m. merge_data_structures
             (JDict [(''name'', JStr ''a''), (''tags'', JList [JInt 1]), (''old'', JBool True)])
             (JDict [(''name'', JStr ''b''), (''tags'', JList [JInt 2, JInt 3]), (''new'', JNull)])
           = JDict m
         \<and> {''name'', ''tags'', ''old'', ''new''} \<subseteq> fst ` set m
         \<and> map_of m ''name'' = Some (JStr ''b'')
         \<and> (\<exists>zs. map_of m ''tags'' = Some (JList zs) \<and> length zs = 3))"
  using merge_mapping_trees
    [of "[(''name'', JStr ''b''), (''tags'', JList [JInt 2, JInt 3]), (''new'', JNull)]"
        "[(''name'', JStr ''a''), (''tags'', JList [JInt 1]), (''old'', JBool True)]"]
  by simp

text \<open>
  Claim C2. Merging a tree \<open>A\<close> with itself: a leaf is what a path of keys reaches through
  the nested mappings. Every list leaf of \<open>A\<close> is followed by a copy of itself in the
  result, every scalar leaf of \<open>A\<close> is unchanged; and the result has no other list or
  scalar leaves: a list leaf of the result is twice as long as the leaf of \<open>A\<close> at the same
  path, a scalar leaf of the result is the leaf of \<open>A\<close> at the same path.
\<close>

theorem merge_self_leaves:
  assumes "wf_json A"
  shows "(\<forall>p xs. lookup_path p A = Some (JList xs) \<longrightarrow>
            lookup_path p (merge_data_structures A A) = Some (JList (xs @ xs)))
       \<and> (\<forall>p v. lookup_path p A = Some v \<and> is_scalar v \<longrightarrow>
            lookup_path p (merge_data_structures A A) = Some v)
       \<and> (\<forall>p zs. lookup_path p (merge_data_structures A A) = Some (JList zs) \<longrightarrow>
            (\<exists>xs. lookup_path p A = Some (JList xs) \<and> length zs = 2 * length xs))
       \<and> (\<forall>p v. lookup_path p (merge_data_structures A A) = Some v \<and> is_scalar v \<longrightarrow>
            lookup_path p A = Some v)"
proof (intro conjI allI impI)
  fix p xs
  assume "lookup_path p A = Some (JList xs)"
  then show "lookup_path p (merge_data_structures A A) = Some (JList (xs @ xs))"
    by (simp add: lookup_path_merge_self [OF assms])
next
  fix p v
  assume "lookup_path p A = Some v \<and> is_scalar v"
  then show "lookup_path p (merge_data_structures A A) = Some v"
    by (simp add: lookup_path_merge_self [OF assms] merge_scalar)
next
  fix p zs
  assume "lookup_path p (merge_data_structures A A) = Some (JList zs)"
  then obtain v where v: "lookup_path p A = Some v" and m: "merge_data_structures v v = JList zs"
    by (auto simp: lookup_path_merge_self [OF assms])
  from m obtain xs where "v = JList xs" "zs = xs @ xs"
    by (cases v) auto
  with v show "\<exists>xs. lookup_path p A = Some (JList xs) \<and> length zs = 2 * length xs"
    by simp
next
  fix p v
  assume "lookup_path p (merge_data_structures A A) = Some v \<and> is_scalar v"
  then obtain w where w: "lookup_path p A = Some w" and m: "merge_data_structures w w = v"
    and s: "is_scalar v"
    by (auto simp: lookup_path_merge_self [OF assms])
  from m s have "w = v" by (cases w) auto
  with w show "lookup_path p A = Some v" by simp
qed

theorem merge_self_leaves_witness:
  "wf_json (JDict [(''data'', JDict [(''breaches'', JList [JStr ''x'', JStr ''y'']),
                                   (''total'', JInt 2)])])
   \<and> lookup_path [''data'', ''breaches'']
       (merge_data_structures
          (JDict [(''data'', JDict [(''breaches'', JList [JStr ''x'', JStr ''y'']),
                                  (''total'', JInt 2)])])
          (JDict [(''data'', JDict [(''breaches'', JList [JStr ''x'', JStr ''y'']),
                                  (''total'', JInt 2)])]))
       = Some (JList [JStr ''x'', JStr ''y'', JStr ''x'', JStr ''y''])
   \<and> lookup_path [''data'', ''total'']
       (merge_data_structures
          (JDict [(''data'', JDict [(''breaches'', JList [JStr ''x'', JStr ''y'']),
                                  (''total'', JInt 2)])])
          (JDict [(''data'', JDict [(''breaches'', JList [JStr ''x'', JStr ''y'']),
                                  (''total'', JInt 2)])]))
       = Some (JInt 2)"
  using merge_self_leaves
    [of "JDict [(''data'', JDict [(''breaches'', JList [JStr ''x'', JStr ''y'']),
                                (''total'', JInt 2)])]"]
  by simp

section \<open>Properties of the scan orchestrator\<close>

lemma fold_scan_step_lookup:
  "map_of (fst (fold (scan_step scanners env target nsfw) cats (results, logged))) c =
     (if c \<in> set cats then
        (case scanners c of
           None \<Rightarrow> map_of results c
         | Some scanner \<Rightarrow> Some (collector_entry env c (scanner target nsfw)))
      else map_of results c)"
proof (induction cats arbitrary: results logged)
  case Nil
  show ?case by simp
next
  case (Cons a cats)
  show ?case
    by (cases "scanners a"; cases "the (scanners a) target nsfw")
       (auto simp: Cons.IH collector_entry_def update_conv' split: option.split sum.split)
qed

lemma fold_scan_step_keys:
  "fst ` set (fst (fold (scan_step scanners env target nsfw) cats (results, logged))) =
     fst ` set results \<union> {c \<in> set cats. scanners c \<noteq> None}"
proof (induction cats arbitrary: results logged)
  case Nil
  show ?case by simp
next
  case (Cons a cats)
  show ?case
    by (cases "scanners a"; cases "the (scanners a) target nsfw")
       (auto simp: Cons.IH dom_update)
qed

lemma fold_scan_step_log_mono:
  "set logged \<subseteq> set (snd (fold (scan_step scanners env target nsfw) cats (results, logged)))"
proof (induction cats arbitrary: results logged)
  case Nil
  show ?case by simp
next
  case (Cons a cats)
  show ?case
    by (cases "scanners a"; cases "the (scanners a) target nsfw")
       (use Cons.IH in \<open>auto simp: subset_iff\<close>)
qed

lemma fold_scan_step_warning:
  "c \<in> set cats \<Longrightarrow> scanners c = None \<Longrightarrow>
   Warning_unknown c \<in> set (snd (fold (scan_step scanners env target nsfw) cats (results, logged)))"
proof (induction cats arbitrary: results logged)
  case Nil
  then show ?case by simp
next
  case (Cons a cats)
  show ?case
  proof (cases "a = c")
    case True
    have "Warning_unknown c \<in> set (logged @ [Warning_unknown c])" by simp
    with fold_scan_step_log_mono [of "logged @ [Warning_unknown c]" scanners env target nsfw cats results]
    show ?thesis using True Cons.prems(2) by auto
  next
    case False
    with Cons.prems have "c \<in> set cats" by simp
    from Cons.IH [OF this Cons.prems(2)] show ?thesis
      by (cases "scanners a"; cases "the (scanners a) target nsfw") auto
  qed
qed

lemma scan_target_results:
  "lookup_path [''results'', c] (fst (scan_target scanners env target cats nsfw)) =
     (if c \<in> set cats then
        (case scanners c of
           None \<Rightarrow> None
         | Some scanner \<Rightarrow> Some (collector_entry env c (scanner target nsfw)))
      else None)"
  by (simp add: scan_target_def scan_loop_def split_beta fold_scan_step_lookup
        split: option.split)

text \<open>
  Claim C3. When the requested list has registered categories \<open>X\<close> and \<open>Y\<close>, the collector
  of \<open>X\<close> raises and the collector of \<open>Y\<close> returns, \<^verbatim>\<open>scan_target\<close> returns a session in
  which \<^verbatim>\<open>results[X]\<close> is the failed entry with the exception's message and
  \<^verbatim>\<open>results[Y]\<close> is the completed entry with the data of \<open>Y\<close>. The result under any other
  category \<open>Z\<close> is the same whatever collector is registered for \<open>X\<close>.
\<close>

theorem scan_failure_isolation:
  assumes "X \<in> set search_types" and "scanners X = Some collect_X"
    and "collect_X target nsfw = Inl message"
    and "Y \<in> set search_types" and "scanners Y = Some collect_Y"
    and "collect_Y target nsfw = Inr data"
  shows "lookup_path [''results'', X] (fst (scan_target scanners env target search_types nsfw))
           = Some (failed_entry message)
       \<and> lookup_path [''results'', Y] (fst (scan_target scanners env target search_types nsfw))
           = Some (completed_entry data (elapsed env Y))
       \<and> (\<forall>Z other. Z \<noteq> X \<longrightarrow>
            lookup_path [''results'', Z]
              (fst (scan_target (scanners(X \<mapsto> other)) env target search_types nsfw))
            = lookup_path [''results'', Z]
              (fst (scan_target scanners env target search_types nsfw)))"
  using assms by (simp add: scan_target_results collector_entry_def)

theorem scan_failure_isolation_witness:
  "''social'' \<in> set [''social'', ''breach'']
 \<and> example_scanners ''social'' = Some failing_collector
 \<and> failing_collector [(''username'', ''alice'')] False = Inl ''timeout''
 \<and> ''breach'' \<in> set [''social'', ''breach'']
 \<and> example_scanners ''breach'' = Some breach_collector
 \<and> breach_collector [(''username'', ''alice'')] False = Inr (JDict [(''breaches'', JList [])])
 \<and> lookup_path [''results'', ''social'']
       (fst (scan_target example_scanners example_env [(''username'', ''alice'')]
              [''social'', ''breach''] False))
     = Some (failed_entry ''timeout'')
 \<and> lookup_path [''results'', ''breach'']
       (fst (scan_target example_scanners example_env [(''username'', ''alice'')]
              [''social'', ''breach''] False))
     = Some (completed_entry (JDict [(''breaches'', JList [])]) (elapsed example_env ''breach''))
 \<and> lookup_path [''results'', ''breach'']
       (fst (scan_target (example_scanners(''social'' \<mapsto> breach_collector)) example_env
              [(''username'', ''alice'')] [''social'', ''breach''] False))
     = lookup_path [''results'', ''breach'']
       (fst (scan_target example_scanners example_env [(''username'', ''alice'')]
              [''social'', ''breach''] False))"
proof -
  have x: "''social'' \<in> set [''social'', ''breach'']"
    "example_scanners ''social'' = Some failing_collector"
    "failing_collector [(''username'', ''alice'')] False = Inl ''timeout''"
    by (simp_all add: example_scanners_def failing_collector_def)
  have y: "''breach'' \<in> set [''social'', ''breach'']"
    "example_scanners ''breach'' = Some breach_collector"
    "breach_collector [(''username'', ''alice'')] False = Inr (JDict [(''breaches'', JList [])])"
    by (simp_all add: example_scanners_def breach_collector_def)
  note isolated = scan_failure_isolation
    [where scanners = example_scanners and env = example_env and X = "''social''"
       and Y = "''breach''" and collect_X = failing_collector and collect_Y = breach_collector
       and target = "[(''username'', ''alice'')]" and nsfw = False
       and search_types = "[''social'', ''breach'']", OF x y]
  from isolated have failed: "lookup_path [''results'', ''social'']
       (fst (scan_target example_scanners example_env [(''username'', ''alice'')]
              [''social'', ''breach''] False))
     = Some (failed_entry ''timeout'')"
    by (rule conjunct1)
  from isolated have completed: "lookup_path [''results'', ''breach'']
       (fst (scan_target example_scanners example_env [(''username'', ''alice'')]
              [''social'', ''breach''] False))
     = Some (completed_entry (JDict [(''breaches'', JList [])]) (elapsed example_env ''breach''))"
    by (rule conjunct1 [OF conjunct2])
  have ne: "''breach'' \<noteq> ''social''"
    by simp
  have same: "lookup_path [''results'', ''breach'']
       (fst (scan_target (example_scanners(''social'' \<mapsto> breach_collector)) example_env
              [(''username'', ''alice'')] [''social'', ''breach''] False))
     = lookup_path [''results'', ''breach'']
       (fst (scan_target example_scanners example_env [(''username'', ''alice'')]
              [''social'', ''breach''] False))"
    by (rule isolated [THEN conjunct2, THEN conjunct2, rule_format, OF ne])
  from x y failed completed same show ?thesis
    by (intro conjI)
qed

text \<open>
  Claim C9. The keys of the \<^verbatim>\<open>results\<close> mapping of the returned session are the requested
  categories that have a registered collector. A requested category without one has no
  entry at all, and a warning about it is in the log.
\<close>

theorem scan_unknown_omitted:
  "\<exists>results.
     lookup_path [''results''] (fst (scan_target scanners env target search_types nsfw))
       = Some (JDict results)
     \<and> fst ` set results = {c \<in> set search_types. scanners c \<noteq> None}
     \<and> (\<forall>c \<in> set search_types. scanners c = None \<longrightarrow>
           map_of results c = None
         \<and> Warning_unknown c \<in> set (snd (scan_target scanners env target search_types nsfw)))"
proof -
  obtain results logged where
    loop: "scan_loop scanners env target nsfw search_types = (results, logged)"
    by (cases "scan_loop scanners env target nsfw search_types")
  have 1: "lookup_path [''results''] (fst (scan_target scanners env target search_types nsfw))
             = Some (JDict results)"
    by (simp add: scan_target_def loop)
  have 2: "fst ` set results = {c \<in> set search_types. scanners c \<noteq> None}"
    using fold_scan_step_keys [of scanners env target nsfw search_types "[]" "[Info_starting]"]
    by (simp add: loop [unfolded scan_loop_def])
  have 3: "map_of results c = None" if "c \<in> set search_types" "scanners c = None" for c
    using that fold_scan_step_lookup [of scanners env target nsfw search_types "[]" "[Info_starting]" c]
    by (simp add: loop [unfolded scan_loop_def])
  have 4: "Warning_unknown c \<in> set (snd (scan_target scanners env target search_types nsfw))"
    if "c \<in> set search_types" "scanners c = None" for c
    using that
      fold_scan_step_warning [of c search_types scanners env target nsfw "[]" "[Info_starting]"]
    by (simp add: scan_target_def scan_loop_def split_beta)
  from 1 2 3 4 show ?thesis by blast
qed

theorem scan_unknown_omitted_witness:
  "\<exists>results.
     lookup_path [''results'']
       (fst (scan_target example_scanners example_env [(''username'', ''alice'')]
              [''invalid_type'', ''breach''] False))
       = Some (JDict results)
     \<and> fst ` set results = {''breach''}
     \<and> ''invalid_type'' \<in> set [''invalid_type'', ''breach'']
     \<and> example_scanners ''invalid_type'' = None
     \<and> map_of results ''invalid_type'' = None
     \<and> Warning_unknown ''invalid_type'' \<in>
         set (snd (scan_target example_scanners example_env [(''username'', ''alice'')]
                    [''invalid_type'', ''breach''] False))"
proof -
  have requested: "''invalid_type'' \<in> set [''invalid_type'', ''breach'']"
    by simp
  have unknown: "example_scanners ''invalid_type'' = None"
    by (simp add: example_scanners_def)
  have known: "example_scanners ''breach'' \<noteq> None"
    by (simp add: example_scanners_def)
  have registered: "{c \<in> set [a, b]. scanners c \<noteq> None} = {b}"
    if "scanners a = None" "scanners b \<noteq> None" for a b :: string and scanners :: "string \<rightharpoonup> collector"
    using that by auto
  from scan_unknown_omitted
    [of example_scanners example_env "[(''username'', ''alice'')]"
        "[''invalid_type'', ''breach'']" False]
  obtain results where
    r: "lookup_path [''results'']
          (fst (scan_target example_scanners example_env [(''username'', ''alice'')]
                 [''invalid_type'', ''breach''] False)) = Some (JDict results)"
    and keys: "fst ` set results
          = {c \<in> set [''invalid_type'', ''breach'']. example_scanners c \<noteq> None}"
    and omitted: "\<forall>c \<in> set [''invalid_type'', ''breach'']. example_scanners c = None \<longrightarrow>
           map_of results c = None
         \<and> Warning_unknown c \<in>
             set (snd (scan_target example_scanners example_env [(''username'', ''alice'')]
                        [''invalid_type'', ''breach''] False))"
    by (elim exE conjE)
  from keys have k: "fst ` set results = {''breach''}"
    unfolding registered [OF unknown known] .
  from omitted [THEN bspec, OF requested, THEN mp, OF unknown]
  have absent: "map_of results ''invalid_type'' = None"
    and warned: "Warning_unknown ''invalid_type'' \<in>
         set (snd (scan_target example_scanners example_env [(''username'', ''alice'')]
                    [''invalid_type'', ''breach''] False))"
    by (rule conjunct1, rule conjunct2)
  from r k requested unknown absent warned show ?thesis
    by (intro exI [of _ results] conjI)
qed

section \<open>Properties of saving and merging profiles\<close>

lemma bind_res_simps [simp]:
  "bind_res (Inr v) f = f v"
  "bind_res (Inl e) f = Inl e"
  by (simp_all add: bind_res_def)

lemma bind_res_eq_Inr:
  "bind_res m f = Inr r \<longleftrightarrow> (\<exists>v. m = Inr v \<and> f v = Inr r)"
  by (cases m) simp_all

lemmas scenario_defs =
  alice_def clock1_def clock2_def session_of_def social_session_def breach_session_def
  flat_session_def completed_entry_def target_json_def

lemma name_alice: "resolve_name clk alice None = ''profile_alice''"
  by (simp add: resolve_name_def generate_profile_name_def target_field_def alice_def)

lemma summary_social:
  "generate_summary social_session =
     Inr (summary_json (empty_summary\<lparr>total_scans := 1, social_media_profiles := JInt 2\<rparr>))"
  by (simp add: generate_summary_def scenario_defs summary_count_def empty_summary_def)

lemma summary_flat:
  "generate_summary flat_session =
     Inr (summary_json (empty_summary\<lparr>total_scans := 1\<rparr>))"
  by (simp add: generate_summary_def scenario_defs summary_count_def empty_summary_def)

lemma first_save_eq:
  "first_save = Inr (''profile_alice'', [''profile_alice'' \<mapsto> Content first_profile])"
  by (simp add: first_save_def save_profile_def name_alice summary_social load_profile_def Let_def
        new_profile_def first_profile_def summary_json_def empty_summary_def)

lemma flat_save_eq:
  "flat_save = Inr (''profile_alice'',
     [''profile_alice'' \<mapsto> Content (new_profile clock1 alice ''profile_alice'' flat_session
        (summary_json (empty_summary\<lparr>total_scans := 1\<rparr>)))])"
  by (simp add: flat_save_def save_profile_def name_alice summary_flat load_profile_def Let_def)

lemma merged_sessions:
  "merge_scan_results social_session breach_session = Inr merged_data"
  by (simp add: merge_scan_results_def social_session_def breach_session_def session_of_def
        merged_data_def)

lemma summary_merged:
  "generate_summary merged_data =
     Inr (JDict [(''total_scans'', JInt 2), (''social_media_profiles'', JInt 2),
                 (''breaches_found'', JInt 1), (''public_records'', JInt 0),
                 (''domains_checked'', JInt 0), (''images_found'', JInt 0),
                 (''locations_found'', JInt 0)])"
  by (simp add: generate_summary_def merged_data_def completed_entry_def summary_count_def
        empty_summary_def summary_json_def)

lemma summary_breach:
  "generate_summary breach_session =
     Inr (summary_json (empty_summary\<lparr>total_scans := 1, breaches_found := JInt 1\<rparr>))"
  by (simp add: generate_summary_def scenario_defs summary_count_def empty_summary_def)

lemma merge_first_profile:
  "merge_profiles first_profile (new_profile clock2 alice ''profile_alice'' breach_session summ)
     = Inr second_profile"
  by (simp add: merge_profiles_def first_profile_def new_profile_def merged_sessions
        summary_merged second_profile_def history_entry_def)

lemma truthy_first_profile: "truthy first_profile"
  by (simp add: first_profile_def)

lemma second_save_eq:
  "second_save = Inr (''profile_alice'', [''profile_alice'' \<mapsto> Content second_profile])"
  by (simp add: second_save_def first_save_eq save_profile_def name_alice summary_breach
        load_profile_def Let_def merge_first_profile truthy_first_profile)

lemma py_append_Inr:
  "py_append h v = Inr r \<Longrightarrow> \<exists>xs. h = JList xs \<and> r = JList (xs @ [v])"
  by (cases h) simp_all

lemma py_copy_Inr_dict:
  "py_copy x = Inr m \<Longrightarrow> py_setitem m k v = Inr r \<Longrightarrow> \<exists>d. x = JDict d \<and> m = JDict d"
  by (cases x) auto

lemma new_profile_fields:
  "py_getitem (new_profile clk target name session summ) ''last_updated'' = Inr (JStr (updated_iso clk))"
  "py_getitem (new_profile clk target name session summ) ''current_data'' = Inr session"
  by (simp_all add: new_profile_def)

lemma merge_profiles_new_profile:
  assumes "merge_profiles existing (new_profile clk target name session summ) = Inr merged"
  shows "\<exists>e h cd sm.
           existing = JDict e
         \<and> map_of e ''scan_history'' = Some (JList h)
         \<and> merge_scan_results
             (case map_of e ''current_data'' of Some c \<Rightarrow> c | None \<Rightarrow> JDict []) session = Inr cd
         \<and> generate_summary cd = Inr sm
         \<and> merged = JDict (AList.update ''summary'' sm
                      (AList.update ''current_data'' cd
                        (AList.update ''scan_history'' (JList (h @ [history_entry clk session]))
                          (AList.update ''last_updated'' (JStr (updated_iso clk)) e))))"
proof -
  from assms obtain m where copy: "py_copy existing = Inr m"
    and rest: "bind_res (py_setitem m ''last_updated'' (JStr (updated_iso clk))) (\<lambda>merged.
       bind_res (py_getitem merged ''scan_history'') (\<lambda>history.
       bind_res (py_append history (history_entry clk session)) (\<lambda>history.
       bind_res (py_setitem merged ''scan_history'' history) (\<lambda>merged.
       bind_res (py_get merged ''current_data'' (JDict [])) (\<lambda>old_data.
       bind_res (merge_scan_results old_data session) (\<lambda>current_data.
       bind_res (py_setitem merged ''current_data'' current_data) (\<lambda>merged.
       bind_res (generate_summary current_data) (\<lambda>summary.
       py_setitem merged ''summary'' summary)))))))) = Inr merged"
    by (auto simp: merge_profiles_def new_profile_fields bind_res_eq_Inr history_entry_def)
  from rest obtain m1 where set1: "py_setitem m ''last_updated'' (JStr (updated_iso clk)) = Inr m1"
    by (auto simp: bind_res_eq_Inr)
  from py_copy_Inr_dict [OF copy set1] obtain e where e: "existing = JDict e" "m = JDict e"
    by blast
  let ?e1 = "AList.update ''last_updated'' (JStr (updated_iso clk)) e"
  from rest e obtain hv where hv: "map_of e ''scan_history'' = Some hv"
    and rest2: "bind_res (py_append hv (history_entry clk session)) (\<lambda>history.
       bind_res (py_setitem (JDict ?e1) ''scan_history'' history) (\<lambda>merged.
       bind_res (py_get merged ''current_data'' (JDict [])) (\<lambda>old_data.
       bind_res (merge_scan_results old_data session) (\<lambda>current_data.
       bind_res (py_setitem merged ''current_data'' current_data) (\<lambda>merged.
       bind_res (generate_summary current_data) (\<lambda>summary.
       py_setitem merged ''summary'' summary)))))) = Inr merged"
    by (cases "map_of e ''scan_history''") (simp_all add: update_conv')
  from rest2 obtain h' where app: "py_append hv (history_entry clk session) = Inr h'"
    and rest3: "bind_res (py_get (JDict (AList.update ''scan_history'' h' ?e1)) ''current_data'' (JDict []))
       (\<lambda>old_data.
       bind_res (merge_scan_results old_data session) (\<lambda>current_data.
       bind_res (py_setitem (JDict (AList.update ''scan_history'' h' ?e1)) ''current_data'' current_data)
         (\<lambda>merged.
       bind_res (generate_summary current_data) (\<lambda>summary.
       py_setitem merged ''summary'' summary)))) = Inr merged"
    by (auto simp: bind_res_eq_Inr)
  from py_append_Inr [OF app] obtain h where h: "hv = JList h"
    "h' = JList (h @ [history_entry clk session])"
    by blast
  let ?old = "case map_of e ''current_data'' of Some c \<Rightarrow> c | None \<Rightarrow> JDict []"
  have old: "py_get (JDict (AList.update ''scan_history'' h' ?e1)) ''current_data'' (JDict []) = Inr ?old"
    by (simp add: update_conv' split: option.split)
  from rest3 obtain cd sm where cd: "merge_scan_results ?old session = Inr cd"
    and sm: "generate_summary cd = Inr sm"
    and m: "merged = JDict (AList.update ''summary'' sm
              (AList.update ''current_data'' cd (AList.update ''scan_history'' h' ?e1)))"
    unfolding old by (auto simp: bind_res_eq_Inr)
  from e hv h cd sm m show ?thesis
    by blast
qed

lemma save_profile_created:
  assumes "store (resolve_name clk target pn) = None"
    and "save_profile clk store target session pn = Inr (name, store')"
  shows "\<exists>summ. generate_summary session = Inr summ
       \<and> name = resolve_name clk target pn
       \<and> store' = store(name \<mapsto> Content (new_profile clk target name session summ))"
  using assms
  by (auto simp: save_profile_def Let_def load_profile_def bind_res_eq_Inr)

lemma save_profile_existing:
  assumes "load_profile store (resolve_name clk target pn) = Inr (Some existing)"
    and "truthy existing"
    and "save_profile clk store target session pn = Inr (name, store')"
  shows "\<exists>summ merged. generate_summary session = Inr summ
       \<and> name = resolve_name clk target pn
       \<and> merge_profiles existing (new_profile clk target name session summ) = Inr merged
       \<and> store' = store(name \<mapsto> Content merged)"
  using assms
  by (auto simp: save_profile_def Let_def bind_res_eq_Inr)

text \<open>
  Claim C10. A save that finds a profile under the resolved name (a value that
  \<^verbatim>\<open>load_profile\<close> returns and that is true in \<^verbatim>\<open>if existing_profile:\<close>) and returns
  leaves \<^verbatim>\<open>created_at\<close>, \<^verbatim>\<open>profile_name\<close> and \<^verbatim>\<open>target\<close> of the stored profile as
  they were in the existing one; so it does every key other than \<^verbatim>\<open>last_updated\<close>,
  \<^verbatim>\<open>scan_history\<close>, \<^verbatim>\<open>current_data\<close> and \<^verbatim>\<open>summary\<close>.
\<close>

theorem save_keeps_identity_fields:
  assumes "load_profile store (resolve_name clk target pn) = Inr (Some existing)"
    and "truthy existing"
    and "save_profile clk store target session pn = Inr (name, store')"
  shows "\<exists>e. existing = JDict e
       \<and> stored_field store' name ''created_at'' = map_of e ''created_at''
       \<and> stored_field store' name ''profile_name'' = map_of e ''profile_name''
       \<and> stored_field store' name ''target'' = map_of e ''target''
       \<and> (\<forall>key. key \<notin> {''last_updated'', ''scan_history'', ''current_data'', ''summary''}
             \<longrightarrow> stored_field store' name key = map_of e key)"
proof -
  from save_profile_existing [OF assms] obtain summ merged where
    m: "merge_profiles existing (new_profile clk target name session summ) = Inr merged"
    and s: "store' = store(name \<mapsto> Content merged)"
    by blast
  from merge_profiles_new_profile [OF m] obtain e h cd sm where
    e: "existing = JDict e"
    and merged: "merged = JDict (AList.update ''summary'' sm
                      (AList.update ''current_data'' cd
                        (AList.update ''scan_history'' (JList (h @ [history_entry clk session]))
                          (AList.update ''last_updated'' (JStr (updated_iso clk)) e))))"
    by blast
  have frame: "stored_field store' name key = map_of e key"
    if "key \<notin> {''last_updated'', ''scan_history'', ''current_data'', ''summary''}" for key
    using that by (simp add: stored_field_def s merged update_conv')
  have "stored_field store' name ''created_at'' = map_of e ''created_at''"
    "stored_field store' name ''profile_name'' = map_of e ''profile_name''"
    "stored_field store' name ''target'' = map_of e ''target''"
    by (simp_all add: frame)
  with e frame show ?thesis
    by blast
qed


theorem save_keeps_identity_fields_witness:
  "load_profile [''profile_alice'' \<mapsto> Content first_profile] (resolve_name clock2 alice None)
     = Inr (Some first_profile)
 \<and> truthy first_profile
 \<and> save_profile clock2 [''profile_alice'' \<mapsto> Content first_profile] alice breach_session None
     = Inr (''profile_alice'', [''profile_alice'' \<mapsto> Content second_profile])
 \<and> stored_field [''profile_alice'' \<mapsto> Content second_profile] ''profile_alice'' ''created_at''
     = Some (JStr (created_iso clock1))
 \<and> stored_field [''profile_alice'' \<mapsto> Content second_profile] ''profile_alice'' ''profile_name''
     = Some (JStr ''profile_alice'')
 \<and> stored_field [''profile_alice'' \<mapsto> Content second_profile] ''profile_alice'' ''target''
     = Some (target_json alice)"
proof -
  have loaded: "load_profile [''profile_alice'' \<mapsto> Content first_profile]
      (resolve_name clock2 alice None) = Inr (Some first_profile)"
    by (simp add: load_profile_def name_alice)
  have saved: "save_profile clock2 [''profile_alice'' \<mapsto> Content first_profile] alice
      breach_session None = Inr (''profile_alice'', [''profile_alice'' \<mapsto> Content second_profile])"
    using second_save_eq by (simp add: second_save_def first_save_eq)
  from save_keeps_identity_fields [OF loaded truthy_first_profile saved]
  have "stored_field [''profile_alice'' \<mapsto> Content second_profile] ''profile_alice'' ''created_at''
          = Some (JStr (created_iso clock1))
      \<and> stored_field [''profile_alice'' \<mapsto> Content second_profile] ''profile_alice'' ''profile_name''
          = Some (JStr ''profile_alice'')
      \<and> stored_field [''profile_alice'' \<mapsto> Content second_profile] ''profile_alice'' ''target''
          = Some (target_json alice)"
    by (auto simp: first_profile_def)
  with loaded truthy_first_profile saved show ?thesis
    by simp
qed

text \<open>
  Claim C5, the code at the scenario. After the first save the stored \<^verbatim>\<open>scan_history\<close> is
  empty, where the claim has one entry; after the second save it has one entry, the
  breach session, where the claim and \<^verbatim>\<open>test_merge_profiles\<close> have two. The summary after
  the second save has the social count 2 and the breach count 1.
\<close>

theorem two_saves_history_lengths:
  "saved_value first_save [''scan_history''] = Some (JList [])
 \<and> saved_value second_save [''scan_history''] = Some (JList [history_entry clock2 breach_session])
 \<and> saved_value second_save [''summary'', ''social_media_profiles''] = Some (JInt 2)
 \<and> saved_value second_save [''summary'', ''breaches_found''] = Some (JInt 1)"
  by (simp add: saved_value_def stored_profile_def first_save_eq second_save_eq
        first_profile_def second_profile_def)

text \<open>
  Claim C4 fails after the first save of the scenario: the stored profile has the session
  as its \<^verbatim>\<open>current_data\<close> and an empty \<^verbatim>\<open>scan_history\<close>, and folding an empty history
  from the empty tree gives the empty tree.
\<close>

theorem first_save_not_reconstructible:
  "stored_profile first_save = Some first_profile
 \<and> lookup_path [''scan_history''] first_profile = Some (JList [])
 \<and> lookup_path [''current_data''] first_profile = Some social_session
 \<and> \<not> reconstructible first_profile"
  by (simp add: stored_profile_def first_save_eq first_profile_def reconstructible_def
        history_sessions_def social_session_def session_of_def)


lemma second_save_explicit:
  "save_profile clock2 [''profile_alice'' \<mapsto> Content first_profile] alice breach_session
     (Some ''profile_alice'')
     = Inr (''profile_alice'', [''profile_alice'' \<mapsto> Content second_profile])"
  by (simp add: save_profile_def resolve_name_def summary_breach
        load_profile_def Let_def merge_first_profile truthy_first_profile)

lemma save_all_existing:
  "store name = Some (Content (JDict e)) \<Longrightarrow> e \<noteq> [] \<Longrightarrow>
   map_of e ''current_data'' = Some cd0 \<Longrightarrow>
   map_of e ''scan_history'' = Some (JList h0) \<Longrightarrow>
   \<forall>c \<in> set later. resolved c = name \<Longrightarrow>
   save_all store later = Inr store' \<Longrightarrow>
   \<exists>cd. merge_sessions cd0 (map call_session later) = Inr cd
      \<and> stored_field store' name ''current_data'' = Some cd
      \<and> stored_field store' name ''scan_history''
          = Some (JList (h0 @ map (\<lambda>c. history_entry (call_clock c) (call_session c)) later))"
proof (induction later arbitrary: store e cd0 h0)
  case Nil
  then show ?case
    by (simp add: stored_field_def)
next
  case (Cons c later)
  let ?clk = "call_clock c" and ?session = "call_session c"
  from Cons.prems(6) obtain n store1 where
    one: "save_profile ?clk store (call_target c) ?session (call_name c) = Inr (n, store1)"
    and more: "save_all store1 later = Inr store'"
    by (auto split: sum.splits)
  from Cons.prems(5) have name: "resolve_name ?clk (call_target c) (call_name c) = name"
    and names: "\<forall>c \<in> set later. resolved c = name"
    by (simp_all add: resolved_def)
  have loaded: "load_profile store (resolve_name ?clk (call_target c) (call_name c))
      = Inr (Some (JDict e))"
    by (simp add: name load_profile_def Cons.prems(1))
  have "truthy (JDict e)"
    using Cons.prems(2) by simp
  from save_profile_existing [OF loaded this one] obtain summ merged where
    n: "n = name"
    and m: "merge_profiles (JDict e) (new_profile ?clk (call_target c) n ?session summ)
              = Inr merged"
    and s1: "store1 = store(n \<mapsto> Content merged)"
    by (auto simp: name)
  from merge_profiles_new_profile [OF m] Cons.prems(3,4) obtain cd1 sm where
    cd1: "merge_scan_results cd0 ?session = Inr cd1"
    and merged: "merged = JDict (AList.update ''summary'' sm
                      (AList.update ''current_data'' cd1
                        (AList.update ''scan_history'' (JList (h0 @ [history_entry ?clk ?session]))
                          (AList.update ''last_updated'' (JStr (updated_iso ?clk)) e))))"
    by auto
  let ?e1 = "AList.update ''summary'' sm
                      (AList.update ''current_data'' cd1
                        (AList.update ''scan_history'' (JList (h0 @ [history_entry ?clk ?session]))
                          (AList.update ''last_updated'' (JStr (updated_iso ?clk)) e)))"
  have a: "store1 name = Some (Content (JDict ?e1))"
    by (simp add: s1 n merged)
  have b: "?e1 \<noteq> []"
    by simp
  have c: "map_of ?e1 ''current_data'' = Some cd1"
    by (simp add: update_conv')
  have d: "map_of ?e1 ''scan_history'' = Some (JList (h0 @ [history_entry ?clk ?session]))"
    by (simp add: update_conv')
  from Cons.IH [OF a b c d names more] cd1 show ?case
    by simp
qed

text \<open>
  Claim C4, as amended. For a sequence of saves that all resolve the same profile name,
  starts with no stored profile under it and in which every save returns: the stored
  \<^verbatim>\<open>current_data\<close> is the result of folding the sessions saved after the first, in
  order, through \<^verbatim>\<open>_merge_scan_results\<close> starting from the first session saved (not from
  an empty tree), and the stored \<^verbatim>\<open>scan_history\<close> ends with the entries of those later
  sessions, in order.
\<close>

theorem current_data_is_fold_of_sessions:
  assumes "\<forall>c \<in> set (first # later). resolved c = name"
    and "store name = None"
    and "save_all store (first # later) = Inr store'"
  shows "\<exists>current_data earlier.
           merge_sessions (call_session first) (map call_session later) = Inr current_data
         \<and> stored_field store' name ''current_data'' = Some current_data
         \<and> stored_field store' name ''scan_history''
             = Some (JList (earlier
                  @ map (\<lambda>c. history_entry (call_clock c) (call_session c)) later))"
proof -
  let ?clk = "call_clock first" and ?session = "call_session first"
  from assms(3) obtain n store1 where
    one: "save_profile ?clk store (call_target first) ?session (call_name first)
            = Inr (n, store1)"
    and more: "save_all store1 later = Inr store'"
    by (auto split: sum.splits)
  from assms(1) have name: "resolve_name ?clk (call_target first) (call_name first) = name"
    and names: "\<forall>c \<in> set later. resolved c = name"
    by (simp_all add: resolved_def)
  from save_profile_created [OF _ one] assms(2) obtain summ where
    s1: "store1 = store(name \<mapsto> Content (new_profile ?clk (call_target first) name ?session summ))"
    by (auto simp: name)
  let ?e = "[(''target'', target_json (call_target first)), (''profile_name'', JStr name),
             (''created_at'', JStr (created_iso ?clk)), (''last_updated'', JStr (updated_iso ?clk)),
             (''scan_history'', JList []), (''current_data'', ?session), (''summary'', summ)]"
  have a: "store1 name = Some (Content (JDict ?e))"
    by (simp add: s1 new_profile_def)
  have b: "?e \<noteq> []" by simp
  have c: "map_of ?e ''current_data'' = Some ?session" by simp
  have d: "map_of ?e ''scan_history'' = Some (JList [])" by simp
  from save_all_existing [OF a b c d names more] show ?thesis
    by blast
qed

theorem current_data_is_fold_of_sessions_witness:
  "resolved \<lparr>call_clock = clock1, call_target = alice, call_session = social_session,
             call_name = None\<rparr> = ''profile_alice''
 \<and> resolved \<lparr>call_clock = clock2, call_target = alice, call_session = breach_session,
             call_name = Some ''profile_alice''\<rparr> = ''profile_alice''
 \<and> (Map.empty :: store) ''profile_alice'' = None
 \<and> save_all Map.empty
       [\<lparr>call_clock = clock1, call_target = alice, call_session = social_session,
          call_name = None\<rparr>,
        \<lparr>call_clock = clock2, call_target = alice, call_session = breach_session,
          call_name = Some ''profile_alice''\<rparr>]
     = Inr [''profile_alice'' \<mapsto> Content second_profile]
 \<and> merge_sessions social_session [breach_session] = Inr merged_data
 \<and> stored_field [''profile_alice'' \<mapsto> Content second_profile] ''profile_alice'' ''current_data''
     = Some merged_data
 \<and> (\<exists>earlier. stored_field [''profile_alice'' \<mapsto> Content second_profile] ''profile_alice''
        ''scan_history'' = Some (JList (earlier @ [history_entry clock2 breach_session])))"
proof -
  let ?first = "\<lparr>call_clock = clock1, call_target = alice, call_session = social_session,
                  call_name = None\<rparr>"
  let ?second = "\<lparr>call_clock = clock2, call_target = alice, call_session = breach_session,
                   call_name = Some ''profile_alice''\<rparr>"
  have n1: "resolved ?first = ''profile_alice''"
    by (simp add: resolved_def name_alice)
  have n2: "resolved ?second = ''profile_alice''"
    by (simp add: resolved_def resolve_name_def)
  from n1 n2 have names: "\<forall>c \<in> set [?first, ?second]. resolved c = ''profile_alice''"
    by simp
  have fresh: "(Map.empty :: store) ''profile_alice'' = None" by simp
  have run: "save_all Map.empty [?first, ?second]
      = Inr [''profile_alice'' \<mapsto> Content second_profile]"
    using first_save_eq by (simp add: first_save_def second_save_explicit)
  from current_data_is_fold_of_sessions [OF names fresh run] n1 n2 fresh run show ?thesis
    by (auto simp: merged_sessions)
qed

text \<open>
  Claim C6 fails at its own input. With the data \<^verbatim>\<open>{"found_profiles": 2}\<close> the save
  resolves the name \<^verbatim>\<open>profile_alice\<close>, and the summary has \<^verbatim>\<open>social_media_profiles\<close> 0,
  since the count is read from \<^verbatim>\<open>data["summary"]["found_profiles"]\<close>, and \<^verbatim>\<open>total_scans\<close> 1.
\<close>

theorem flat_payload_summary:
  "saved_value flat_save [''profile_name''] = Some (JStr ''profile_alice'')
 \<and> saved_value flat_save [''summary'', ''social_media_profiles''] = Some (JInt 0)
 \<and> saved_value flat_save [''summary'', ''total_scans''] = Some (JInt 1)"
  by (simp add: saved_value_def stored_profile_def flat_save_eq new_profile_def
        summary_json_def empty_summary_def)

text \<open>
  Claim C6, as amended. For the target \<^verbatim>\<open>{"username": "alice"}\<close>, a store without a
  profile \<^verbatim>\<open>profile_alice\<close>, and a session whose results hold the category social,
  completed, with the data \<^verbatim>\<open>{"summary": {"found_profiles": 2}}\<close>: the save resolves the
  name \<^verbatim>\<open>profile_alice\<close> and stores a summary with \<^verbatim>\<open>social_media_profiles\<close> 2,
  \<^verbatim>\<open>total_scans\<close> 1 and every other counter 0.
\<close>

theorem save_alice_summary:
  assumes "store ''profile_alice'' = None"
    and "py_get session ''results'' (JDict []) =
           Inr (JDict [(''social'', completed_entry
                  (JDict [(''summary'', JDict [(''found_profiles'', JInt 2)])]) seconds)])"
  shows "\<exists>store'.
           save_profile clk store [(''username'', ''alice'')] session None
             = Inr (''profile_alice'', store')
         \<and> stored_field store' ''profile_alice'' ''summary''
             = Some (JDict [(''total_scans'', JInt 1),
                            (''social_media_profiles'', JInt 2),
                            (''breaches_found'', JInt 0),
                            (''public_records'', JInt 0),
                            (''domains_checked'', JInt 0),
                            (''images_found'', JInt 0),
                            (''locations_found'', JInt 0)])"
proof -
  have name: "resolve_name clk [(''username'', ''alice'')] None = ''profile_alice''"
    by (simp add: resolve_name_def generate_profile_name_def target_field_def)
  have summ: "generate_summary session
      = Inr (JDict [(''total_scans'', JInt 1),
                            (''social_media_profiles'', JInt 2),
                            (''breaches_found'', JInt 0),
                            (''public_records'', JInt 0),
                            (''domains_checked'', JInt 0),
                            (''images_found'', JInt 0),
                            (''locations_found'', JInt 0)])"
    by (simp add: generate_summary_def assms(2) completed_entry_def summary_count_def
          empty_summary_def summary_json_def)
  show ?thesis
    by (simp add: save_profile_def Let_def name summ load_profile_def assms(1)
          stored_field_def new_profile_def)
qed

theorem save_alice_summary_witness:
  "(Map.empty :: store) ''profile_alice'' = None
 \<and> py_get (JDict [(''results'', JDict [(''social'', completed_entry
                  (JDict [(''summary'', JDict [(''found_profiles'', JInt 2)])]) 1)])])
        ''results'' (JDict [])
     = Inr (JDict [(''social'', completed_entry
                  (JDict [(''summary'', JDict [(''found_profiles'', JInt 2)])]) 1)])
 \<and> (\<exists>store'.
       save_profile clock1 Map.empty [(''username'', ''alice'')]
         (JDict [(''results'', JDict [(''social'', completed_entry
                  (JDict [(''summary'', JDict [(''found_profiles'', JInt 2)])]) 1)])]) None
         = Inr (''profile_alice'', store')
     \<and> stored_field store' ''profile_alice'' ''summary''
         = Some (JDict [(''total_scans'', JInt 1),
                        (''social_media_profiles'', JInt 2),
                        (''breaches_found'', JInt 0),
                        (''public_records'', JInt 0),
                        (''domains_checked'', JInt 0),
                        (''images_found'', JInt 0),
                        (''locations_found'', JInt 0)]))"
  using save_alice_summary
    [of Map.empty
        "JDict [(''results'', JDict [(''social'', completed_entry
                  (JDict [(''summary'', JDict [(''found_profiles'', JInt 2)])]) 1)])]"
        1 clock1]
  by simp

section \<open>Properties of the profile name\<close>

lemma split_acc_parts:
  "\<forall>c \<in> set word. \<not> py_space c \<Longrightarrow> w \<in> set (split_acc word s) \<Longrightarrow>
   w \<noteq> [] \<and> (\<forall>c \<in> set w. \<not> py_space c)"
proof (induction s arbitrary: word)
  case Nil
  then show ?case by (auto split: if_splits)
next
  case (Cons a s)
  show ?case
  proof (cases "py_space a")
    case True
    with Cons.prems Cons.IH [of "[]"] show ?thesis
      by (auto split: if_splits)
  next
    case False
    with Cons.prems Cons.IH [of "word @ [a]"] show ?thesis
      by auto
  qed
qed

lemma py_split_parts:
  "w \<in> set (py_split s) \<Longrightarrow> w \<noteq> [] \<and> (\<forall>c \<in> set w. \<not> py_space c)"
  using split_acc_parts [of "[]" w s] by (simp add: py_split_def)

lemma before_at:
  "CHR ''@'' \<notin> set (takeWhile (\<lambda>c. c \<noteq> CHR ''@'') s)
 \<and> (s = takeWhile (\<lambda>c. c \<noteq> CHR ''@'') s
    \<or> (\<exists>rest. s = takeWhile (\<lambda>c. c \<noteq> CHR ''@'') s @ CHR ''@'' # rest))"
proof (induction s)
  case Nil
  show ?case by simp
next
  case (Cons a s)
  then show ?case by (cases "a = CHR ''@''") auto
qed

text \<open>
  Claim C7 fails for a target whose only identity field is the phone number: the
  validation accepts it, and its name is the clock's stamp, which differs from one call
  to the next.
\<close>

theorem phone_only_name_depends_on_clock:
  "validate_target [(''phone'', ''+1-555-123-4567'')]
 \<and> generate_profile_name ''20240101_120000'' [(''phone'', ''+1-555-123-4567'')]
     \<noteq> generate_profile_name ''20240101_120001'' [(''phone'', ''+1-555-123-4567'')]"
  by (simp add: validate_target_def generate_profile_name_def target_field_def py_split_def)

text \<open>
  Claim C7, as amended. \<^verbatim>\<open>_generate_profile_name\<close> returns a string for every target,
  chosen by the first match: the username; else the part of the email before the first
  \<^verbatim>\<open>@\<close>; else the domain; else the first two parts of the full name, when splitting it at
  whitespace gives at least two; else the clock's stamp. The name does not depend on the
  clock when the username, the email or the domain is set or the full name has two parts;
  a target with no such field, also one with only a phone number or a one-word full name,
  gets the stamp.
\<close>

theorem generate_profile_name_precedence:
  "(target_field t ''username'' \<noteq> [] \<longrightarrow>
      generate_profile_name now t = ''profile_'' @ target_field t ''username'')
 \<and> (target_field t ''username'' = [] \<and> target_field t ''email'' \<noteq> [] \<longrightarrow>
      (\<exists>local_part.
         generate_profile_name now t = ''profile_'' @ local_part
       \<and> CHR ''@'' \<notin> set local_part
       \<and> (target_field t ''email'' = local_part
          \<or> (\<exists>rest. target_field t ''email'' = local_part @ CHR ''@'' # rest))))
 \<and> (target_field t ''username'' = [] \<and> target_field t ''email'' = []
      \<and> target_field t ''domain'' \<noteq> [] \<longrightarrow>
      generate_profile_name now t = ''profile_'' @ target_field t ''domain'')
 \<and> (target_field t ''username'' = [] \<and> target_field t ''email'' = []
      \<and> target_field t ''domain'' = [] \<longrightarrow>
      (\<forall>first second others.
         py_split (target_field t ''full_name'') = first # second # others \<longrightarrow>
         generate_profile_name now t = ''profile_'' @ first @ ''_'' @ second)
    \<and> (length (py_split (target_field t ''full_name'')) < 2 \<longrightarrow>
         generate_profile_name now t = ''profile_'' @ now))
 \<and> (target_field t ''username'' \<noteq> [] \<or> target_field t ''email'' \<noteq> []
      \<or> target_field t ''domain'' \<noteq> []
      \<or> 2 \<le> length (py_split (target_field t ''full_name'')) \<longrightarrow>
      generate_profile_name later t = generate_profile_name now t)"
proof (intro conjI impI)
  assume "target_field t ''username'' \<noteq> []"
  then show "generate_profile_name now t = ''profile_'' @ target_field t ''username''"
    by (simp add: generate_profile_name_def)
next
  assume a: "target_field t ''username'' = [] \<and> target_field t ''email'' \<noteq> []"
  let ?l = "takeWhile (\<lambda>c. c \<noteq> CHR ''@'') (target_field t ''email'')"
  from a have "generate_profile_name now t = ''profile_'' @ ?l"
    by (simp add: generate_profile_name_def)
  with before_at [of "target_field t ''email''"]
  show "\<exists>local_part.
         generate_profile_name now t = ''profile_'' @ local_part
       \<and> CHR ''@'' \<notin> set local_part
       \<and> (target_field t ''email'' = local_part
          \<or> (\<exists>rest. target_field t ''email'' = local_part @ CHR ''@'' # rest))"
    by blast
next
  assume "target_field t ''username'' = [] \<and> target_field t ''email'' = []
      \<and> target_field t ''domain'' \<noteq> []"
  then show "generate_profile_name now t = ''profile_'' @ target_field t ''domain''"
    by (simp add: generate_profile_name_def)
next
  assume a: "target_field t ''username'' = [] \<and> target_field t ''email'' = []
      \<and> target_field t ''domain'' = []"
  then show "\<forall>first second others.
         py_split (target_field t ''full_name'') = first # second # others \<longrightarrow>
         generate_profile_name now t = ''profile_'' @ first @ ''_'' @ second"
    by (simp add: generate_profile_name_def)
  assume "length (py_split (target_field t ''full_name'')) < 2"
  with a show "generate_profile_name now t = ''profile_'' @ now"
    by (cases "py_split (target_field t ''full_name'')" rule: list.exhaust;
        cases "tl (py_split (target_field t ''full_name''))")
       (auto simp: generate_profile_name_def)
next
  assume "target_field t ''username'' \<noteq> [] \<or> target_field t ''email'' \<noteq> []
      \<or> target_field t ''domain'' \<noteq> []
      \<or> 2 \<le> length (py_split (target_field t ''full_name''))"
  then show "generate_profile_name later t = generate_profile_name now t"
    by (auto simp: generate_profile_name_def split: list.split)
qed

theorem generate_profile_name_precedence_witness:
  "generate_profile_name ''20240101_120000'' [(''username'', ''testuser'')] = ''profile_testuser''
 \<and> generate_profile_name ''20240101_120000'' [(''email'', ''test@example.com'')] = ''profile_test''
 \<and> generate_profile_name ''20240101_120000'' [(''domain'', ''example.com'')] = ''profile_example.com''
 \<and> generate_profile_name ''20240101_120000'' [(''full_name'', ''Test User'')] = ''profile_Test_User''
 \<and> generate_profile_name ''20240101_120000'' [] = ''profile_20240101_120000''
 \<and> generate_profile_name ''20240101_120001'' [(''full_name'', ''Test User'')]
     = generate_profile_name ''20240101_120000'' [(''full_name'', ''Test User'')]"
  using
    generate_profile_name_precedence [of "[(''username'', ''testuser'')]" "''20240101_120000''"]
    generate_profile_name_precedence [of "[(''email'', ''test@example.com'')]" "''20240101_120000''"]
    generate_profile_name_precedence [of "[(''domain'', ''example.com'')]" "''20240101_120000''"]
    generate_profile_name_precedence
      [of "[(''full_name'', ''Test User'')]" "''20240101_120000''" "''20240101_120001''"]
    generate_profile_name_precedence [of "[]" "''20240101_120000''"]
  by (simp add: generate_profile_name_def target_field_def py_split_def py_space_def)

section \<open>Properties of loading\<close>

lemma load_profile_absent:
  "store name = None \<Longrightarrow> load_profile store name = Inr None"
  by (simp add: load_profile_def)

lemma load_profile_content:
  "store name = Some (Content profile) \<Longrightarrow> load_profile store name = Inr (Some profile)"
  by (simp add: load_profile_def)

lemma load_profile_caught:
  "store name = Some Malformed \<or> store name = Some Unreadable \<Longrightarrow>
   load_profile store name = Inr None"
  by (auto simp: load_profile_def)

text \<open>
  Claim C8, the code at a file whose bytes are not text in the encoding of \<^verbatim>\<open>open\<close>:
  \<^verbatim>\<open>load_profile\<close> raises \<^verbatim>\<open>UnicodeDecodeError\<close>, which the \<^verbatim>\<open>except\<close> clause does not
  name, where the claim has the absence signal. A missing profile and a file that is not
  JSON both give \<^verbatim>\<open>None\<close>.
\<close>

theorem load_profile_undecodable_raises:
  "load_profile [''broken'' \<mapsto> Undecodable] ''broken'' = Inl UnicodeDecodeError
 \<and> load_profile [''broken'' \<mapsto> Undecodable] ''nonexistent'' = Inr None
 \<and> load_profile [''broken'' \<mapsto> Malformed] ''broken'' = Inr None"
  by (simp add: load_profile_def)

end
